theory Spec2Isabelle
  imports Main "HOL-Library.Word" "HOL-Library.Char_ord"
begin

section \<open>Strings\<close>

text \<open>
  A Go \<^verbatim>\<open>string\<close> is a sequence of bytes and \<^verbatim>\<open>len\<close> counts bytes; it is
  modelled by \<^typ>\<open>string\<close>, a list of 8-bit characters.

  \<^verbatim>\<open>strings.ReplaceAll(s, old, new)\<close> is called in \<^verbatim>\<open>main.go\<close> only with a
  one-byte \<^verbatim>\<open>old\<close> (\<^verbatim>\<open>"-"\<close> and \<^verbatim>\<open>" "\<close>), so the pattern is a single
  character here: every occurrence of that byte is replaced by \<^verbatim>\<open>new\<close>, left to right.
\<close>

primrec ReplaceAll :: "string \<Rightarrow> char \<Rightarrow> string \<Rightarrow> string" where
  "ReplaceAll [] old new = []"
| "ReplaceAll (c # cs) old new = (if c = old then new else [c]) @ ReplaceAll cs old new"

text \<open>\<^verbatim>\<open>strings.HasPrefix\<close> and \<^verbatim>\<open>strings.TrimPrefix\<close>.\<close>

definition HasPrefix :: "string \<Rightarrow> string \<Rightarrow> bool" where
  "HasPrefix s p = (length p \<le> length s \<and> take (length p) s = p)"

definition TrimPrefix :: "string \<Rightarrow> string \<Rightarrow> string" where
  "TrimPrefix s p = (if HasPrefix s p then drop (length p) s else s)"

section \<open>The regular expression of the validator\<close>

text \<open>
  \<^verbatim>\<open>regexp.MatchString(`^\d{8}$`, cep)\<close> reports whether \<^verbatim>\<open>cep\<close> contains a
  match of the pattern. The fragment of Go's syntax the pattern uses is modelled:
  the anchors \<^verbatim>\<open>^\<close> and \<^verbatim>\<open>$\<close> (beginning and end of the text, no flag being
  set), the Perl class \<^verbatim>\<open>\d\<close> (the range \<^verbatim>\<open>[0-9]\<close>), concatenation and the counted
  repetition \<^verbatim>\<open>x{n}\<close>.
\<close>

datatype regexp =
    BeginText
  | EndText
  | PerlDigit
  | Concat regexp regexp
  | Repeat nat regexp

definition isPerlDigit :: "char \<Rightarrow> bool" where
  "isPerlDigit c = (CHR ''0'' \<le> c \<and> c \<le> CHR ''9'')"

text \<open>\<open>iterate n f i\<close>: the positions reached from \<open>i\<close> by \<open>n\<close> successive steps of \<open>f\<close>.\<close>

primrec iterate :: "nat \<Rightarrow> (nat \<Rightarrow> nat list) \<Rightarrow> nat \<Rightarrow> nat list" where
  "iterate 0 f i = [i]"
| "iterate (Suc n) f i = concat (map (iterate n f) (f i))"

text \<open>\<open>matchAt re s i\<close>: the end positions of the matches of \<open>re\<close> in \<open>s\<close> that start at \<open>i\<close>.\<close>

primrec matchAt :: "regexp \<Rightarrow> string \<Rightarrow> nat \<Rightarrow> nat list" where
  "matchAt BeginText s = (\<lambda>i. if i = 0 then [i] else [])"
| "matchAt EndText s = (\<lambda>i. if i = length s then [i] else [])"
| "matchAt PerlDigit s = (\<lambda>i. if i < length s \<and> isPerlDigit (s ! i) then [Suc i] else [])"
| "matchAt (Concat a b) s = (\<lambda>i. concat (map (matchAt b s) (matchAt a s i)))"
| "matchAt (Repeat n a) s = iterate n (matchAt a s)"

text \<open>A match may start at any position of the text, its end included.\<close>

definition MatchString :: "regexp \<Rightarrow> string \<Rightarrow> bool" where
  "MatchString re s = list_ex (\<lambda>i. matchAt re s i \<noteq> []) [0..<Suc (length s)]"

text \<open>The pattern literal \<^verbatim>\<open>^\d{8}$\<close>.\<close>

definition cepPattern :: regexp where
  "cepPattern = Concat BeginText (Concat (Repeat 8 PerlDigit) EndText)"

section \<open>Validator and normalizer\<close>

definition isValidCEP :: "string \<Rightarrow> bool" where
  "isValidCEP cep =
     (let cep = ReplaceAll cep CHR ''-'' '''';
          cep = ReplaceAll cep CHR '' '' ''''
      in if length cep \<noteq> 8 then False
         else MatchString cepPattern cep)"

definition formatCEP :: "string \<Rightarrow> string" where
  "formatCEP cep =
     (let cep = ReplaceAll cep CHR ''-'' '''';
          cep = ReplaceAll cep CHR '' '' ''''
      in cep)"

text \<open>
  The words of the specification, to compare the validator with: the input with every
  hyphen and every space removed, and a string of exactly 8 ASCII digits.
\<close>

definition stripSeparators :: "string \<Rightarrow> string" where
  "stripSeparators s = filter (\<lambda>c. c \<noteq> CHR ''-'' \<and> c \<noteq> CHR '' '') s"

definition isASCIIDigit :: "char \<Rightarrow> bool" where
  "isASCIIDigit c = (c \<in> set ''0123456789'')"

definition eightDigits :: "string \<Rightarrow> bool" where
  "eightDigits s = (length s = 8 \<and> list_all isASCIIDigit s)"

section \<open>URL escaping\<close>

text \<open>
  \<^verbatim>\<open>url.QueryEscape\<close> of Go's \<^verbatim>\<open>net/url\<close>, which is \<^verbatim>\<open>escape(s, encodeQueryComponent)\<close>:
  letters and digits are kept, as are the marks \<^verbatim>\<open>-_.~\<close>; the reserved characters
  \<^verbatim>\<open>$&+,/:;=?@\<close> are escaped in a query component, and so is every other byte. A space
  is written \<^verbatim>\<open>+\<close>, any other escaped byte as \<^verbatim>\<open>%\<close> and two upper-case
  hexadecimal digits.
\<close>

definition shouldEscape :: "char \<Rightarrow> bool" where
  "shouldEscape c =
     (if (CHR ''a'' \<le> c \<and> c \<le> CHR ''z'') \<or> (CHR ''A'' \<le> c \<and> c \<le> CHR ''Z'')
          \<or> (CHR ''0'' \<le> c \<and> c \<le> CHR ''9'') then False
      else if c \<in> set ''-_.~'' then False
      else if c \<in> set ''$&+,/:;=?@'' then True
      else True)"

definition upperhex :: string where
  "upperhex = ''0123456789ABCDEF''"

definition QueryEscape :: "string \<Rightarrow> string" where
  "QueryEscape s =
     concat (map (\<lambda>c.
        if shouldEscape c then
          (if c = CHR '' '' then ''+''
           else [CHR ''%'', upperhex ! ((of_char c :: nat) div 16), upperhex ! ((of_char c :: nat) mod 16)])
        else [c]) s)"

text \<open>
  The words of the specification: percent-encoding keeps the unreserved characters of
  RFC 3986 and writes every other byte as \<^verbatim>\<open>%\<close> and its two hexadecimal digits.
\<close>

definition isUnreserved :: "char \<Rightarrow> bool" where
  "isUnreserved c =
     (c \<in> set ''ABCDEFGHIJKLMNOPQRSTUVWXYZabcdefghijklmnopqrstuvwxyz0123456789-._~'')"

definition hexDigit :: "nat \<Rightarrow> char" where
  "hexDigit n = (if n < 10 then char_of (48 + n) else char_of (55 + n))"

definition percentEncode :: "string \<Rightarrow> string" where
  "percentEncode s =
     concat (map (\<lambda>c.
        if isUnreserved c then [c]
        else [CHR ''%'', hexDigit ((of_char c :: nat) div 16), hexDigit ((of_char c :: nat) mod 16)]) s)"

section \<open>Floating point and decoded JSON\<close>

text \<open>
  A \<^verbatim>\<open>float64\<close> is modelled by its IEEE-754 bit pattern (\<^verbatim>\<open>math.Float64bits\<close>).
  The classification into NaN and infinities is computed from the bits; the arithmetic
  and \<^verbatim>\<open>strconv.ParseFloat\<close> are operations of the Go runtime and are taken as
  parameters (the record \<open>runtime\<close> below).
\<close>

type_synonym float64 = "64 word"

definition isNaN :: "float64 \<Rightarrow> bool" where
  "isNaN x = (take_bit 11 (drop_bit 52 x) = 2047 \<and> take_bit 52 x \<noteq> 0)"

definition isInf :: "float64 \<Rightarrow> bool" where
  "isInf x = (take_bit 11 (drop_bit 52 x) = 2047 \<and> take_bit 52 x = 0)"



text \<open>The untyped constants of \<^verbatim>\<open>getWeatherData\<close>, converted to \<^verbatim>\<open>float64\<close>.\<close>

definition float64_9 :: float64 where
  "float64_9 = 0x4022000000000000"

definition float64_5 :: float64 where
  "float64_5 = 0x4014000000000000"

definition float64_32 :: float64 where
  "float64_32 = 0x4040000000000000"

definition float64_273_15 :: float64 where
  "float64_273_15 = 0x4071126666666666"

text \<open>
  The value an \<^verbatim>\<open>interface{}\<close> holds after \<^verbatim>\<open>json.Unmarshal\<close>: \<^verbatim>\<open>bool\<close>,
  \<^verbatim>\<open>float64\<close>, \<^verbatim>\<open>string\<close>, \<^verbatim>\<open>[]interface{}\<close> or
  \<^verbatim>\<open>map[string]interface{}\<close>; the \<^verbatim>\<open>nil\<close> interface is \<open>None\<close>.
\<close>

datatype any =
    AnyBool bool
  | AnyFloat64 float64
  | AnyString string
  | AnySlice "any list"
  | AnyMap "(string \<times> any) list"

text \<open>A JSON document written by \<^verbatim>\<open>json.Encoder.Encode\<close>.\<close>

datatype json =
    JString string
  | JNumber float64
  | JObject "(string \<times> json) list"

section \<open>Data model\<close>

record CEPData =
  CEP :: string
  Logradouro :: string
  Complemento :: string
  Bairro :: string
  Localidade :: string
  UF :: string
  IBGE :: string
  GIA :: string
  DDD :: string
  SIAFI :: string
  Erro :: "any option"

record WeatherData =
  TempC :: float64
  TempF :: float64
  TempK :: float64

text \<open>\<^verbatim>\<open>ErrorResponse\<close>; its field \<^verbatim>\<open>Message\<close> is named \<open>ResponseMessage\<close> here.\<close>

record ErrorResponse =
  ResponseMessage :: string

record CustomError =
  Code :: int
  Message :: string

text \<open>
  The anonymous struct \<^verbatim>\<open>wttrResponse\<close> of \<^verbatim>\<open>getWeatherData\<close>; the field
  \<^verbatim>\<open>TempC\<close> of its elements is named \<open>ConditionTempC\<close> here.
\<close>

record currentCondition =
  ConditionTempC :: string

record wttrResponse =
  CurrentCondition :: "currentCondition list"

section \<open>The outside world\<close>

text \<open>
  What \<^verbatim>\<open>httpClient.Get\<close> returns when it returns no error: the status code and
  the outcome of \<^verbatim>\<open>io.ReadAll(resp.Body)\<close>, \<open>None\<close> when reading fails.
\<close>

record Response =
  StatusCode :: int
  Body :: "string option"

text \<open>
  The network answers a request for a URL, knowing the URLs requested before it;
  \<open>None\<close> is a transport error. \<open>Get\<close> also records the URL in the log of requests.
\<close>

type_synonym network = "string list \<Rightarrow> string \<Rightarrow> Response option"

definition Get :: "network \<Rightarrow> string list \<Rightarrow> string \<Rightarrow> Response option \<times> string list" where
  "Get net log url = (net log url, log @ [url])"

text \<open>
  The library functions whose results the program branches on.
  \<open>ParseFloat s\<close> is \<^verbatim>\<open>strconv.ParseFloat(s, 64)\<close>, \<open>None\<close> when it returns an error;
  \<open>fmul\<close>, \<open>fquo\<close> and \<open>fadd\<close> are \<^verbatim>\<open>*\<close>, \<^verbatim>\<open>/\<close> and \<^verbatim>\<open>+\<close> on
  \<^verbatim>\<open>float64\<close>; \<open>UnmarshalCEP\<close> and \<open>UnmarshalWttr\<close> are \<^verbatim>\<open>json.Unmarshal\<close>
  into a zero \<^verbatim>\<open>CEPData\<close> and a zero \<^verbatim>\<open>wttrResponse\<close>, \<open>None\<close> when it
  returns an error.
\<close>

record runtime =
  ParseFloat :: "string \<Rightarrow> float64 option"
  fmul :: "float64 \<Rightarrow> float64 \<Rightarrow> float64"
  fquo :: "float64 \<Rightarrow> float64 \<Rightarrow> float64"
  fadd :: "float64 \<Rightarrow> float64 \<Rightarrow> float64"
  UnmarshalCEP :: "string \<Rightarrow> CEPData option"
  UnmarshalWttr :: "string \<Rightarrow> wttrResponse option"

section \<open>Location resolver\<close>

definition viacepURL :: "string \<Rightarrow> string \<Rightarrow> string" where
  "viacepURL scheme formattedCEP = scheme @ ''://viacep.com.br/ws/'' @ formattedCEP @ ''/json/''"

definition internalServerError :: CustomError where
  "internalServerError = \<lparr>Code = 500, Message = ''internal server error''\<rparr>"

definition searchCEP ::
  "runtime \<Rightarrow> network \<Rightarrow> string list \<Rightarrow> string \<Rightarrow> (CustomError + CEPData) \<times> string list" where
  "searchCEP rt net log cep =
     (if \<not> isValidCEP cep then (Inl \<lparr>Code = 422, Message = ''invalid zipcode''\<rparr>, log)
      else
        let formattedCEP = formatCEP cep;
            url = viacepURL ''https'' formattedCEP;
            (resp, log) = Get net log url;
            (resp, log) =
              (case resp of
                 None \<Rightarrow> Get net log (viacepURL ''http'' formattedCEP)
               | Some r \<Rightarrow> (Some r, log))
        in case resp of
             None \<Rightarrow> (Inl internalServerError, log)
           | Some resp \<Rightarrow>
               if StatusCode resp \<noteq> 200 then (Inl internalServerError, log)
               else case Body resp of
                 None \<Rightarrow> (Inl internalServerError, log)
               | Some body \<Rightarrow>
                   (case UnmarshalCEP rt body of
                      None \<Rightarrow> (Inl internalServerError, log)
                    | Some cepData \<Rightarrow>
                        if Erro cepData \<noteq> None
                        then (Inl \<lparr>Code = 404, Message = ''can not find zipcode''\<rparr>, log)
                        else (Inr cepData, log)))"

section \<open>Weather resolver\<close>

definition weatherURL :: "string \<Rightarrow> string \<Rightarrow> string" where
  "weatherURL city state =
     (let cityFormatted = ReplaceAll city CHR '' '' ''+'';
          stateFormatted = ReplaceAll state CHR '' '' ''+'';
          location = cityFormatted @ '','' @ stateFormatted @ '',Brazil''
      in ''https://wttr.in/'' @ QueryEscape location @ ''?format=j1'')"

definition getWeatherData ::
  "runtime \<Rightarrow> network \<Rightarrow> string list \<Rightarrow> string \<Rightarrow> string
     \<Rightarrow> (CustomError + WeatherData) \<times> string list" where
  "getWeatherData rt net log city state =
     (let url = weatherURL city state;
          (resp, log) = Get net log url
      in case resp of
           None \<Rightarrow> (Inl internalServerError, log)
         | Some resp \<Rightarrow>
             if StatusCode resp \<noteq> 200 then (Inl internalServerError, log)
             else case Body resp of
               None \<Rightarrow> (Inl internalServerError, log)
             | Some body \<Rightarrow>
                 (case UnmarshalWttr rt body of
                    None \<Rightarrow> (Inl internalServerError, log)
                  | Some wttr \<Rightarrow>
                      (case CurrentCondition wttr of
                         [] \<Rightarrow> (Inl \<lparr>Code = 500, Message = ''weather data not available''\<rparr>, log)
                       | c # _ \<Rightarrow>
                           (case ParseFloat rt (ConditionTempC c) of
                              None \<Rightarrow> (Inl internalServerError, log)
                            | Some tempC \<Rightarrow>
                                let tempF = fadd rt (fquo rt (fmul rt tempC float64_9) float64_5) float64_32;
                                    tempK = fadd rt tempC float64_273_15
                                in (Inr \<lparr>TempC = tempC, TempF = tempF, TempK = tempK\<rparr>, log)))))"

section \<open>Request handler\<close>

record Request =
  Method :: string
  Path :: string

text \<open>
  The \<^verbatim>\<open>http.ResponseWriter\<close>: the header map of \<^verbatim>\<open>w.Header()\<close>, the status line
  and header sent by the first \<^verbatim>\<open>WriteHeader\<close> (later calls change nothing, and neither
  do later changes of the map), and the JSON documents written to the body.
\<close>

record ResponseWriter =
  Header :: "string \<rightharpoonup> string"
  Sent :: "(int \<times> (string \<rightharpoonup> string)) option"
  Written :: "json list"

definition NewRecorder :: ResponseWriter where
  "NewRecorder = \<lparr>Header = Map.empty, Sent = None, Written = []\<rparr>"

definition HeaderSet :: "string \<Rightarrow> string \<Rightarrow> ResponseWriter \<Rightarrow> ResponseWriter" where
  "HeaderSet k v w = w\<lparr>Header := (Header w)(k \<mapsto> v)\<rparr>"

definition WriteHeader :: "int \<Rightarrow> ResponseWriter \<Rightarrow> ResponseWriter" where
  "WriteHeader code w =
     (case Sent w of None \<Rightarrow> w\<lparr>Sent := Some (code, Header w)\<rparr> | Some _ \<Rightarrow> w)"

definition Write :: "json \<Rightarrow> ResponseWriter \<Rightarrow> ResponseWriter" where
  "Write doc w = (let w = WriteHeader 200 w in w\<lparr>Written := Written w @ [doc]\<rparr>)"

text \<open>
  \<^verbatim>\<open>json.Marshal\<close> of the two response types. A NaN or infinite \<^verbatim>\<open>float64\<close> has
  no JSON form: marshalling fails with an \<^verbatim>\<open>UnsupportedValueError\<close>.
\<close>

definition marshalErrorResponse :: "ErrorResponse \<Rightarrow> json option" where
  "marshalErrorResponse e = Some (JObject [(''message'', JString (ResponseMessage e))])"

definition marshalFloat :: "float64 \<Rightarrow> json option" where
  "marshalFloat x = (if isInf x \<or> isNaN x then None else Some (JNumber x))"

definition marshalWeatherData :: "WeatherData \<Rightarrow> json option" where
  "marshalWeatherData d =
     (case marshalFloat (TempC d) of None \<Rightarrow> None | Some c \<Rightarrow>
      case marshalFloat (TempF d) of None \<Rightarrow> None | Some f \<Rightarrow>
      case marshalFloat (TempK d) of None \<Rightarrow> None | Some k \<Rightarrow>
        Some (JObject [(''temp_C'', c), (''temp_F'', f), (''temp_K'', k)]))"

text \<open>
  \<^verbatim>\<open>json.NewEncoder(w).Encode(v)\<close>: the document is written when marshalling
  succeeds; when it fails nothing is written, and the handler drops the error.
\<close>

definition Encode :: "json option \<Rightarrow> ResponseWriter \<Rightarrow> ResponseWriter" where
  "Encode doc w = (case doc of None \<Rightarrow> w | Some d \<Rightarrow> Write d w)"

text \<open>
  The three statements every failure branch of the handler repeats: set the content
  type, write the status, encode an \<^verbatim>\<open>ErrorResponse\<close>.
\<close>

definition respondError :: "int \<Rightarrow> string \<Rightarrow> ResponseWriter \<Rightarrow> ResponseWriter" where
  "respondError code msg w =
     (let w = HeaderSet ''Content-Type'' ''application/json'' w;
          w = WriteHeader code w
      in Encode (marshalErrorResponse \<lparr>ResponseMessage = msg\<rparr>) w)"

definition weatherByCEPHandler ::
  "runtime \<Rightarrow> network \<Rightarrow> ResponseWriter \<Rightarrow> Request \<Rightarrow> ResponseWriter \<times> string list" where
  "weatherByCEPHandler rt net w r =
     (if Method r \<noteq> ''GET'' then (respondError 405 ''method not allowed'' w, [])
      else
        let path = Path r in
        if \<not> HasPrefix path ''/weatherbycep/'' then (respondError 404 ''endpoint not found'' w, [])
        else
          let cep = TrimPrefix path ''/weatherbycep/'' in
          if cep = '''' then (respondError 400 ''cep parameter is required'' w, [])
          else
            case searchCEP rt net [] cep of
              (Inl cepErr, log) \<Rightarrow> (respondError (Code cepErr) (Message cepErr) w, log)
            | (Inr cepData, log) \<Rightarrow>
                (case getWeatherData rt net log (Localidade cepData) (UF cepData) of
                   (Inl weatherErr, log) \<Rightarrow>
                     (respondError (Code weatherErr) (Message weatherErr) w, log)
                 | (Inr weather, log) \<Rightarrow>
                     (let w = HeaderSet ''Content-Type'' ''application/json'' w;
                          w = WriteHeader 200 w
                      in (Encode (marshalWeatherData weather) w, log))))"

section \<open>The sentinel of the lookup service, in the words of the specification\<close>

text \<open>
  The specification calls the sentinel a not-found signal when it is present and truthy.
  Of the values a decoded field can hold, \<^verbatim>\<open>false\<close>, the number zero and the empty
  string are falsy; every other value is truthy.
\<close>

fun truthy :: "any \<Rightarrow> bool" where
  "truthy (AnyBool b) = b"
| "truthy (AnyFloat64 x) = (x \<noteq> 0 \<and> x \<noteq> 0x8000000000000000)"
| "truthy (AnyString s) = (s \<noteq> [])"
| "truthy (AnySlice xs) = True"
| "truthy (AnyMap kvs) = True"

section \<open>A concrete runtime and network for the examples\<close>

text \<open>
  The examples run the program on a runtime that knows a handful of inputs: the
  \<^verbatim>\<open>float64\<close> values of \<^verbatim>\<open>"25"\<close> and \<^verbatim>\<open>"NaN"\<close> (\<^verbatim>\<open>strconv.ParseFloat\<close>
  accepts \<^verbatim>\<open>"NaN"\<close> and returns \<^verbatim>\<open>math.NaN()\<close>, whose bits are
  \<^verbatim>\<open>0x7FF8000000000001\<close>), the results of the arithmetic on 25 (225, 45, 77 and
  298.15) with NaN returned for any other operands, as it is for a NaN operand, and the
  structs that \<^verbatim>\<open>json.Unmarshal\<close> fills from seven response bodies.
\<close>

definition zeroCEPData :: CEPData where
  "zeroCEPData = \<lparr>CEP = '''', Logradouro = '''', Complemento = '''', Bairro = '''',
     Localidade = '''', UF = '''', IBGE = '''', GIA = '''', DDD = '''', SIAFI = '''', Erro = None\<rparr>"

definition float64_NaN :: float64 where
  "float64_NaN = 0x7FF8000000000001"

definition exampleParseFloat :: "string \<Rightarrow> float64 option" where
  "exampleParseFloat s =
     (if s = ''25'' then Some 0x4039000000000000
      else if s = ''NaN'' then Some float64_NaN
      else None)"

definition exampleMul :: "float64 \<Rightarrow> float64 \<Rightarrow> float64" where
  "exampleMul x y =
     (if x = 0x4039000000000000 \<and> y = float64_9 then 0x406C200000000000 else float64_NaN)"

definition exampleQuo :: "float64 \<Rightarrow> float64 \<Rightarrow> float64" where
  "exampleQuo x y =
     (if x = 0x406C200000000000 \<and> y = float64_5 then 0x4046800000000000 else float64_NaN)"

definition exampleAdd :: "float64 \<Rightarrow> float64 \<Rightarrow> float64" where
  "exampleAdd x y =
     (if x = 0x4046800000000000 \<and> y = float64_32 then 0x4053400000000000
      else if x = 0x4039000000000000 \<and> y = float64_273_15 then 0x4072A26666666666
      else float64_NaN)"

definition exampleUnmarshalCEP :: "string \<Rightarrow> CEPData option" where
  \<open>exampleUnmarshalCEP body =
     (if body = ''{"localidade": "Sao Paulo", "uf": "SP"}''
        then Some (zeroCEPData\<lparr>Localidade := ''Sao Paulo'', UF := ''SP''\<rparr>)
      else if body = ''{"localidade": "Rio de Janeiro", "uf": "RJ"}''
        then Some (zeroCEPData\<lparr>Localidade := ''Rio de Janeiro'', UF := ''RJ''\<rparr>)
      else if body = ''{"erro": true}'' then Some (zeroCEPData\<lparr>Erro := Some (AnyBool True)\<rparr>)
      else if body = ''{"erro": false}'' then Some (zeroCEPData\<lparr>Erro := Some (AnyBool False)\<rparr>)
      else None)\<close>

definition exampleUnmarshalWttr :: "string \<Rightarrow> wttrResponse option" where
  \<open>exampleUnmarshalWttr body =
     (if body = ''{"current_condition": []}'' then Some \<lparr>CurrentCondition = []\<rparr>
      else if body = ''{"current_condition": [{"temp_C": "25"}]}''
        then Some \<lparr>CurrentCondition = [\<lparr>ConditionTempC = ''25''\<rparr>]\<rparr>
      else if body = ''{"current_condition": [{"temp_C": "NaN"}]}''
        then Some \<lparr>CurrentCondition = [\<lparr>ConditionTempC = ''NaN''\<rparr>]\<rparr>
      else None)\<close>

definition exampleRuntime :: runtime where
  "exampleRuntime =
     \<lparr>ParseFloat = exampleParseFloat, fmul = exampleMul, fquo = exampleQuo, fadd = exampleAdd,
      UnmarshalCEP = exampleUnmarshalCEP, UnmarshalWttr = exampleUnmarshalWttr\<rparr>"

text \<open>
  The example network: the lookup service knows one postal code over HTTPS, answers a
  second with the sentinel \<^verbatim>\<open>true\<close> and a third with the sentinel \<^verbatim>\<open>false\<close>, and
  knows a fourth over plain HTTP only; the weather service reports NaN for the city of
  the first code, 25 degrees for the city of the fourth and an empty list of conditions
  for another city. Every other request fails at the transport level.
\<close>

definition exampleNet :: network where
  \<open>exampleNet log url =
     (if url = ''https://viacep.com.br/ws/01310100/json/''
        then Some \<lparr>StatusCode = 200, Body = Some ''{"localidade": "Sao Paulo", "uf": "SP"}''\<rparr>
      else if url = ''https://viacep.com.br/ws/99999999/json/''
        then Some \<lparr>StatusCode = 200, Body = Some ''{"erro": true}''\<rparr>
      else if url = ''https://viacep.com.br/ws/00000000/json/''
        then Some \<lparr>StatusCode = 200, Body = Some ''{"erro": false}''\<rparr>
      else if url = ''http://viacep.com.br/ws/20040020/json/''
        then Some \<lparr>StatusCode = 200, Body = Some ''{"localidade": "Rio de Janeiro", "uf": "RJ"}''\<rparr>
      else if url = ''https://wttr.in/Sao%2BPaulo%2CSP%2CBrazil?format=j1''
        then Some \<lparr>StatusCode = 200, Body = Some ''{"current_condition": [{"temp_C": "NaN"}]}''\<rparr>
      else if url = ''https://wttr.in/Rio%2Bde%2BJaneiro%2CRJ%2CBrazil?format=j1''
        then Some \<lparr>StatusCode = 200, Body = Some ''{"current_condition": [{"temp_C": "25"}]}''\<rparr>
      else if url = ''https://wttr.in/Atlantis%2CAT%2CBrazil?format=j1''
        then Some \<lparr>StatusCode = 200, Body = Some ''{"current_condition": []}''\<rparr>
      else None)\<close>

section \<open>Properties of the validator and the normalizer\<close>

lemma ReplaceAll_delete: "ReplaceAll s c [] = filter (\<lambda>x. x \<noteq> c) s"
  by (induction s) auto

lemma ReplaceAll_char: "ReplaceAll s c [d] = map (\<lambda>x. if x = c then d else x) s"
  by (induction s) auto

lemma formatCEP_stripSeparators: "formatCEP s = stripSeparators s"
  by (simp add: formatCEP_def stripSeparators_def ReplaceAll_delete conj_commute)

text \<open>A property of every byte follows from its check on the 256 of them.\<close>

lemma all_chars: "list_all P (Enum.enum :: char list) \<Longrightarrow> P c"
  by (simp add: list_all_iff enum_UNIV)

lemma isPerlDigit_iff: "isPerlDigit c \<longleftrightarrow> isASCIIDigit c"
proof -
  have "list_all (\<lambda>c. isPerlDigit c \<longleftrightarrow> isASCIIDigit c) Enum.enum"
    by code_simp
  then show ?thesis by (rule all_chars)
qed

text \<open>
  Counted repetition of the digit class: from position \<open>i\<close> it matches exactly when the
  next \<open>n\<close> bytes exist and are digits, and then it ends at \<open>i + n\<close>.
\<close>

lemma iterate_digit:
  "i \<le> length s \<Longrightarrow> iterate n (matchAt PerlDigit s) i =
     (if i + n \<le> length s \<and> (\<forall>j<n. isPerlDigit (s ! (i + j))) then [i + n] else [])"
proof (induction n arbitrary: i)
  case 0
  then show ?case by simp
next
  case (Suc n)
  show ?case
  proof (cases "i < length s \<and> isPerlDigit (s ! i)")
    case True
    then have "iterate (Suc n) (matchAt PerlDigit s) i = iterate n (matchAt PerlDigit s) (Suc i)"
      by simp
    also have "\<dots> = (if Suc i + n \<le> length s \<and> (\<forall>j<n. isPerlDigit (s ! (Suc i + j)))
                      then [Suc i + n] else [])"
      using True by (intro Suc.IH) simp
    also have "\<dots> = (if i + Suc n \<le> length s \<and> (\<forall>j<Suc n. isPerlDigit (s ! (i + j)))
                      then [i + Suc n] else [])"
      using True by (auto simp: less_Suc_eq_0_disj)
    finally show ?thesis .
  next
    case False
    then have "iterate (Suc n) (matchAt PerlDigit s) i = []"
      by auto
    moreover have "\<not> (i + Suc n \<le> length s \<and> (\<forall>j<Suc n. isPerlDigit (s ! (i + j))))"
      using False by (auto simp: less_Suc_eq_0_disj)
    ultimately show ?thesis by simp
  qed
qed

lemma matchAt_Repeat_digit:
  "i \<le> length s \<Longrightarrow> matchAt (Repeat n PerlDigit) s i =
     (if i + n \<le> length s \<and> (\<forall>j<n. isPerlDigit (s ! (i + j))) then [i + n] else [])"
  unfolding matchAt.simps(5) by (rule iterate_digit)

lemma matchAt_cepPattern:
  "i \<le> length s \<Longrightarrow> matchAt cepPattern s i =
     (if i = 0 \<and> length s = 8 \<and> (\<forall>j<8. isPerlDigit (s ! j)) then [8] else [])"
  by (auto simp: cepPattern_def matchAt_Repeat_digit
           simp del: matchAt.simps(3) matchAt.simps(5))

lemma MatchString_cepPattern:
  "MatchString cepPattern s \<longleftrightarrow> length s = 8 \<and> (\<forall>j<8. isPerlDigit (s ! j))"
proof -
  have "MatchString cepPattern s \<longleftrightarrow> (\<exists>i. i < Suc (length s) \<and> matchAt cepPattern s i \<noteq> [])"
    by (simp only: MatchString_def list_ex_iff Bex_def set_upt atLeastLessThan_iff le0 simp_thms)
  also have "\<dots> \<longleftrightarrow> (\<exists>i\<le>length s. matchAt cepPattern s i \<noteq> [])"
    by (simp only: less_Suc_eq_le)
  also have "\<dots> \<longleftrightarrow> length s = 8 \<and> (\<forall>j<8. isPerlDigit (s ! j))"
    by (auto simp: matchAt_cepPattern split: if_splits)
  finally show ?thesis .
qed

lemma isValidCEP_iff: "isValidCEP s \<longleftrightarrow> eightDigits (stripSeparators s)"
proof -
  let ?t = "formatCEP s"
  have "isValidCEP s \<longleftrightarrow> length ?t = 8 \<and> MatchString cepPattern ?t"
    by (auto simp: isValidCEP_def formatCEP_def Let_def)
  also have "\<dots> \<longleftrightarrow> length ?t = 8 \<and> (\<forall>j<length ?t. isPerlDigit (?t ! j))"
    by (auto simp: MatchString_cepPattern)
  also have "\<dots> \<longleftrightarrow> eightDigits ?t"
    by (simp add: eightDigits_def list_all_length isPerlDigit_iff)
  finally show ?thesis by (simp add: formatCEP_stripSeparators)
qed

text \<open>
  Claim C1. For every input string, \<open>isValidCEP\<close> accepts it if and only if the string
  left after removing all hyphens and spaces consists of exactly 8 ASCII digits. In
  particular \<^verbatim>\<open>"01310-100"\<close> and \<^verbatim>\<open>"01310 100"\<close> are accepted, and \<^verbatim>\<open>"123"\<close>,
  \<^verbatim>\<open>"12.345.678"\<close> and the empty string are rejected.
\<close>

theorem isValidCEP_accepts_eight_digits:
  "(\<forall>s. isValidCEP s \<longleftrightarrow> eightDigits (stripSeparators s))
   \<and> isValidCEP ''01310-100'' \<and> isValidCEP ''01310 100''
   \<and> \<not> isValidCEP ''123'' \<and> \<not> isValidCEP ''12.345.678'' \<and> \<not> isValidCEP ''''"
proof -
  have "isValidCEP ''01310-100''" by code_simp
  moreover have "isValidCEP ''01310 100''" by code_simp
  moreover have "\<not> isValidCEP ''123''" by code_simp
  moreover have "\<not> isValidCEP ''12.345.678''" by code_simp
  moreover have "\<not> isValidCEP ''''" by code_simp
  ultimately show ?thesis using isValidCEP_iff by blast
qed

theorem isValidCEP_accepts_eight_digits_witness:
  "eightDigits (stripSeparators ''12345-678'') \<and> isValidCEP ''12345-678''"
proof -
  have h: "eightDigits (stripSeparators ''12345-678'')"
    by (simp add: eightDigits_def stripSeparators_def isASCIIDigit_def)
  show ?thesis using h isValidCEP_accepts_eight_digits by blast
qed

text \<open>
  Claim C7. The normalizer is idempotent: \<open>formatCEP (formatCEP x) = formatCEP x\<close> for
  every input string \<open>x\<close>.
\<close>

theorem formatCEP_idempotent: "formatCEP (formatCEP x) = formatCEP x"
  by (simp add: formatCEP_stripSeparators stripSeparators_def)

theorem formatCEP_idempotent_witness:
  "formatCEP (formatCEP ''12 34-56 78'') = formatCEP ''12 34-56 78''
   \<and> formatCEP ''12 34-56 78'' = ''12345678''"
  using formatCEP_idempotent [of "''12 34-56 78''"] by (simp add: formatCEP_def)

section \<open>Properties of the location resolver\<close>

text \<open>
  Claim C10. For every input string that the validator rejects, \<open>searchCEP\<close> itself
  returns the error 422 \<^verbatim>\<open>"invalid zipcode"\<close> and issues no outbound request: the log
  of requests is returned as it was received.
\<close>

theorem searchCEP_invalid_no_request:
  "\<not> isValidCEP cep \<Longrightarrow>
   searchCEP rt net log cep = (Inl \<lparr>Code = 422, Message = ''invalid zipcode''\<rparr>, log)"
  by (simp add: searchCEP_def)

theorem searchCEP_invalid_no_request_witness:
  "\<not> isValidCEP ''123''
   \<and> searchCEP exampleRuntime exampleNet [] ''123''
       = (Inl \<lparr>Code = 422, Message = ''invalid zipcode''\<rparr>, [])"
proof -
  have h: "\<not> isValidCEP ''123''" by code_simp
  show ?thesis using h searchCEP_invalid_no_request [OF h] by simp
qed

text \<open>
  Claim C4. For a valid code: when the first (HTTPS) call fails at the transport level,
  exactly one further request is made, to the same address under the HTTP scheme; when
  that one fails at the transport level too, \<open>searchCEP\<close> returns the error 500
  \<^verbatim>\<open>"internal server error"\<close> and the log holds those two requests only; when the first
  call succeeds at the transport level, whatever its status, the log holds that one
  request only.
\<close>

theorem searchCEP_single_fallback:
  "isValidCEP cep \<Longrightarrow>
     (net log (viacepURL ''https'' (formatCEP cep)) = None \<longrightarrow>
        snd (searchCEP rt net log cep)
          = log @ [viacepURL ''https'' (formatCEP cep), viacepURL ''http'' (formatCEP cep)])
   \<and> (net log (viacepURL ''https'' (formatCEP cep)) = None
        \<and> net (log @ [viacepURL ''https'' (formatCEP cep)]) (viacepURL ''http'' (formatCEP cep)) = None \<longrightarrow>
        fst (searchCEP rt net log cep) = Inl \<lparr>Code = 500, Message = ''internal server error''\<rparr>)
   \<and> (net log (viacepURL ''https'' (formatCEP cep)) \<noteq> None \<longrightarrow>
        snd (searchCEP rt net log cep) = log @ [viacepURL ''https'' (formatCEP cep)])"
  by (auto simp: searchCEP_def Get_def Let_def internalServerError_def split: option.splits)

theorem searchCEP_single_fallback_witness:
  "isValidCEP ''20040021''
   \<and> exampleNet [] (viacepURL ''https'' (formatCEP ''20040021'')) = None
   \<and> exampleNet [viacepURL ''https'' (formatCEP ''20040021'')]
        (viacepURL ''http'' (formatCEP ''20040021'')) = None
   \<and> snd (searchCEP exampleRuntime exampleNet [] ''20040021'')
        = [''https://viacep.com.br/ws/20040021/json/'', ''http://viacep.com.br/ws/20040021/json/'']
   \<and> fst (searchCEP exampleRuntime exampleNet [] ''20040021'')
        = Inl \<lparr>Code = 500, Message = ''internal server error''\<rparr>
   \<and> isValidCEP ''20040020''
   \<and> exampleNet [] (viacepURL ''https'' (formatCEP ''20040020'')) = None
   \<and> snd (searchCEP exampleRuntime exampleNet [] ''20040020'')
        = [''https://viacep.com.br/ws/20040020/json/'', ''http://viacep.com.br/ws/20040020/json/'']
   \<and> isValidCEP ''01310-100''
   \<and> exampleNet [] (viacepURL ''https'' (formatCEP ''01310-100'')) \<noteq> None
   \<and> snd (searchCEP exampleRuntime exampleNet [] ''01310-100'')
        = [''https://viacep.com.br/ws/01310100/json/'']"
proof -
  have v1: "isValidCEP ''20040021''" by code_simp
  have v2: "isValidCEP ''01310-100''" by code_simp
  have v3: "isValidCEP ''20040020''" by code_simp
  have n4: "exampleNet [] (viacepURL ''https'' (formatCEP ''20040020'')) = None"
    by (simp add: exampleNet_def viacepURL_def formatCEP_def)
  have n1: "exampleNet [] (viacepURL ''https'' (formatCEP ''20040021'')) = None"
    by (simp add: exampleNet_def viacepURL_def formatCEP_def)
  have n2: "exampleNet [viacepURL ''https'' (formatCEP ''20040021'')]
              (viacepURL ''http'' (formatCEP ''20040021'')) = None"
    by (simp add: exampleNet_def viacepURL_def formatCEP_def)
  have n3: "exampleNet [] (viacepURL ''https'' (formatCEP ''01310-100'')) \<noteq> None"
    by (simp add: exampleNet_def viacepURL_def formatCEP_def)
  show ?thesis
    using v1 v2 v3 n1 n2 n3 n4
      searchCEP_single_fallback [OF v1, of exampleNet "[]" exampleRuntime]
      searchCEP_single_fallback [OF v2, of exampleNet "[]" exampleRuntime]
      searchCEP_single_fallback [OF v3, of exampleNet "[]" exampleRuntime]
    by (simp add: viacepURL_def formatCEP_def)
qed

text \<open>
  Claim C3, as the code has it. \<open>searchCEP\<close> reports the not-found failure (404,
  \<^verbatim>\<open>"can not find zipcode"\<close>) exactly when the code is valid, the response it ends up
  with (the first one, or the fallback's when the first call failed) has status 200 and
  a readable body that decodes, and the decoded sentinel field is not \<^verbatim>\<open>nil\<close>: the
  field is present with any value other than JSON \<^verbatim>\<open>null\<close>. Its truth value is not
  looked at, so \<^verbatim>\<open>false\<close>, \<^verbatim>\<open>0\<close> and the empty string count as not-found too.
\<close>

theorem searchCEP_not_found_iff_sentinel_present:
  "fst (searchCEP rt net log cep) = Inl \<lparr>Code = 404, Message = ''can not find zipcode''\<rparr> \<longleftrightarrow>
     isValidCEP cep \<and>
     (\<exists>resp body cepData.
        (case net log (viacepURL ''https'' (formatCEP cep)) of
           None \<Rightarrow> net (log @ [viacepURL ''https'' (formatCEP cep)]) (viacepURL ''http'' (formatCEP cep))
         | Some r \<Rightarrow> Some r) = Some resp
        \<and> StatusCode resp = 200 \<and> Body resp = Some body
        \<and> UnmarshalCEP rt body = Some cepData \<and> Erro cepData \<noteq> None)"
  by (auto simp: searchCEP_def Get_def Let_def internalServerError_def split: option.splits)

theorem searchCEP_not_found_iff_sentinel_present_witness:
  \<open>exampleNet [] (viacepURL ''https'' (formatCEP ''99999-999''))
      = Some \<lparr>StatusCode = 200, Body = Some ''{"erro": true}''\<rparr>
   \<and> map_option Erro (UnmarshalCEP exampleRuntime ''{"erro": true}'') = Some (Some (AnyBool True))
   \<and> fst (searchCEP exampleRuntime exampleNet [] ''99999-999'')
      = Inl \<lparr>Code = 404, Message = ''can not find zipcode''\<rparr>\<close>
proof -
  have v: "isValidCEP ''99999-999''" by code_simp
  have n: \<open>exampleNet [] (viacepURL ''https'' (formatCEP ''99999-999''))
             = Some \<lparr>StatusCode = 200, Body = Some ''{"erro": true}''\<rparr>\<close>
    by (simp add: exampleNet_def viacepURL_def formatCEP_def)
  have u: \<open>UnmarshalCEP exampleRuntime ''{"erro": true}''
             = Some (zeroCEPData\<lparr>Erro := Some (AnyBool True)\<rparr>)\<close>
    by (simp add: exampleRuntime_def exampleUnmarshalCEP_def)
  show ?thesis
    using v n u
      searchCEP_not_found_iff_sentinel_present
        [of exampleRuntime exampleNet "[]" "''99999-999''"]
    by simp
qed

text \<open>
  The claim as the specification words it fails: the lookup service answers
  \<^verbatim>\<open>{"erro": false}\<close>, the sentinel is present and falsy, and \<open>searchCEP\<close> reports
  not-found.
\<close>

theorem searchCEP_falsy_sentinel_counterexample:
  \<open>exampleNet [] (viacepURL ''https'' (formatCEP ''00000000''))
      = Some \<lparr>StatusCode = 200, Body = Some ''{"erro": false}''\<rparr>
   \<and> map_option Erro (UnmarshalCEP exampleRuntime ''{"erro": false}'') = Some (Some (AnyBool False))
   \<and> \<not> truthy (AnyBool False)
   \<and> fst (searchCEP exampleRuntime exampleNet [] ''00000000'')
      = Inl \<lparr>Code = 404, Message = ''can not find zipcode''\<rparr>\<close>
proof -
  have v: "isValidCEP ''00000000''" by code_simp
  show ?thesis
    using v
    by (simp add: searchCEP_def Get_def exampleNet_def exampleRuntime_def exampleUnmarshalCEP_def
          zeroCEPData_def viacepURL_def formatCEP_def)
qed

section \<open>Properties of the weather resolver\<close>

lemma shouldEscape_iff: "shouldEscape c \<longleftrightarrow> \<not> isUnreserved c"
proof -
  have "list_all (\<lambda>c. shouldEscape c \<longleftrightarrow> \<not> isUnreserved c) Enum.enum"
    by code_simp
  then show ?thesis by (rule all_chars)
qed

lemma upperhex_hexDigit: "n < 16 \<Longrightarrow> upperhex ! n = hexDigit n"
proof -
  have "list_all (\<lambda>n. upperhex ! n = hexDigit n) [0..<16]"
    by code_simp
  then show "n < 16 \<Longrightarrow> upperhex ! n = hexDigit n"
    by (simp add: list_all_iff)
qed

lemma of_char_nibbles:
  "(of_char (c::char) :: nat) div 16 < 16" "(of_char c :: nat) mod 16 < 16"
proof -
  have "(of_char c :: nat) < 256" by simp
  then show "(of_char (c::char) :: nat) div 16 < 16"
    by (simp add: less_mult_imp_div_less)
  show "(of_char c :: nat) mod 16 < 16" by simp
qed

text \<open>On a string with no space in it, \<open>QueryEscape\<close> is plain percent-encoding.\<close>

lemma QueryEscape_no_space:
  "CHR '' '' \<notin> set s \<Longrightarrow> QueryEscape s = percentEncode s"
  by (induction s)
     (auto simp: QueryEscape_def percentEncode_def shouldEscape_iff upperhex_hexDigit
        of_char_nibbles)

text \<open>Every path through \<open>getWeatherData\<close> makes one request, for \<open>weatherURL\<close>.\<close>

lemma getWeatherData_log:
  "snd (getWeatherData rt net log city state) = log @ [weatherURL city state]"
  by (simp add: getWeatherData_def Get_def Let_def split: option.split list.split)

text \<open>
  Claim C9. For every city and state string, the URL the weather resolver requests is
  \<^verbatim>\<open>https://wttr.in/\<close>, then the percent-encoding of: the city with each space
  replaced by \<^verbatim>\<open>+\<close>, a comma, the state with each space replaced by \<^verbatim>\<open>+\<close>, and
  \<^verbatim>\<open>,Brazil\<close>; then the query \<^verbatim>\<open>?format=j1\<close>.
\<close>

theorem getWeatherData_requests_encoded_location:
  "snd (getWeatherData rt net log city state) =
     log @ [''https://wttr.in/''
            @ percentEncode (map (\<lambda>c. if c = CHR '' '' then CHR ''+'' else c) city @ '',''
                             @ map (\<lambda>c. if c = CHR '' '' then CHR ''+'' else c) state @ '',Brazil'')
            @ ''?format=j1'']"
proof -
  let ?plus = "map (\<lambda>c. if c = CHR '' '' then CHR ''+'' else c)"
  have "CHR '' '' \<notin> set (?plus city @ '','' @ ?plus state @ '',Brazil'')"
    by auto
  then have "QueryEscape (?plus city @ '','' @ ?plus state @ '',Brazil'')
             = percentEncode (?plus city @ '','' @ ?plus state @ '',Brazil'')"
    by (rule QueryEscape_no_space)
  then have "weatherURL city state =
     ''https://wttr.in/'' @ percentEncode (?plus city @ '','' @ ?plus state @ '',Brazil'')
       @ ''?format=j1''"
    by (simp add: weatherURL_def ReplaceAll_char Let_def)
  then show ?thesis by (simp add: getWeatherData_log)
qed

theorem getWeatherData_requests_encoded_location_witness:
  "snd (getWeatherData exampleRuntime exampleNet [] ''Sao Paulo'' ''SP'')
     = [''https://wttr.in/Sao%2BPaulo%2CSP%2CBrazil?format=j1'']"
proof -
  have e: "percentEncode ''Sao+Paulo,SP,Brazil'' = ''Sao%2BPaulo%2CSP%2CBrazil''"
    by code_simp
  show ?thesis
    using e getWeatherData_requests_encoded_location
              [of exampleRuntime exampleNet "[]" "''Sao Paulo''" "''SP''"]
    by simp
qed

text \<open>
  A temperature record is returned only on the path that parses a Celsius value, and it
  is then built from that value.
\<close>

lemma getWeatherData_success_shape:
  "fst (getWeatherData rt net log city state) = Inr d \<Longrightarrow>
   \<exists>resp body wttr c cs C.
     net log (weatherURL city state) = Some resp \<and> StatusCode resp = 200
     \<and> Body resp = Some body \<and> UnmarshalWttr rt body = Some wttr
     \<and> CurrentCondition wttr = c # cs \<and> ParseFloat rt (ConditionTempC c) = Some C
     \<and> d = \<lparr>TempC = C,
              TempF = fadd rt (fquo rt (fmul rt C float64_9) float64_5) float64_32,
              TempK = fadd rt C float64_273_15\<rparr>"
  by (auto simp: getWeatherData_def Get_def Let_def internalServerError_def
      split: option.splits list.splits if_splits)





text \<open>
  Claim C6. When the weather service answers with status 200 and a body that decodes,
  and the decoded list of current conditions is empty, \<open>getWeatherData\<close> returns the
  error 500 with the message \<^verbatim>\<open>"weather data not available"\<close>, not
  \<^verbatim>\<open>"internal server error"\<close>, and no temperature record.
\<close>

theorem getWeatherData_empty_conditions:
  "net log (weatherURL city state) = Some resp \<Longrightarrow> StatusCode resp = 200 \<Longrightarrow>
   Body resp = Some body \<Longrightarrow> UnmarshalWttr rt body = Some wttr \<Longrightarrow>
   CurrentCondition wttr = [] \<Longrightarrow>
   fst (getWeatherData rt net log city state)
     = Inl \<lparr>Code = 500, Message = ''weather data not available''\<rparr>"
  by (simp add: getWeatherData_def Get_def Let_def)

theorem getWeatherData_empty_conditions_witness:
  \<open>exampleNet [] (weatherURL ''Atlantis'' ''AT'')
      = Some \<lparr>StatusCode = 200, Body = Some ''{"current_condition": []}''\<rparr>
   \<and> UnmarshalWttr exampleRuntime ''{"current_condition": []}'' = Some \<lparr>CurrentCondition = []\<rparr>
   \<and> fst (getWeatherData exampleRuntime exampleNet [] ''Atlantis'' ''AT'')
      = Inl \<lparr>Code = 500, Message = ''weather data not available''\<rparr>\<close>
proof -
  let ?resp = \<open>\<lparr>StatusCode = 200, Body = Some ''{"current_condition": []}''\<rparr>\<close>
  have n: "exampleNet [] (weatherURL ''Atlantis'' ''AT'') = Some ?resp"
    by (simp add: exampleNet_def weatherURL_def QueryEscape_def shouldEscape_def upperhex_def)
  have s: "StatusCode ?resp = 200" by simp
  have b: \<open>Body ?resp = Some ''{"current_condition": []}''\<close> by simp
  have u: \<open>UnmarshalWttr exampleRuntime ''{"current_condition": []}''
             = Some \<lparr>CurrentCondition = []\<rparr>\<close>
    by (simp add: exampleRuntime_def exampleUnmarshalWttr_def)
  have e: "CurrentCondition \<lparr>CurrentCondition = []\<rparr> = []" by simp
  show ?thesis
    using n u
      getWeatherData_empty_conditions
        [where net = exampleNet and log = "[]" and city = "''Atlantis''" and state = "''AT''"
           and rt = exampleRuntime, OF n s b u e]
    by simp
qed

section \<open>Properties of the request handler\<close>

text \<open>
  Claim C5. For every request whose method is not \<^verbatim>\<open>GET\<close>, whatever its path, the
  handler answers with status 405 and the body \<^verbatim>\<open>{"message": "method not allowed"}\<close>.
  The check comes before the path checks and both resolvers: the answer does not depend
  on the path, and no outbound request is made.
\<close>

theorem handler_method_not_allowed:
  "Method r \<noteq> ''GET'' \<Longrightarrow>
     (case weatherByCEPHandler rt net NewRecorder r of (w, log) \<Rightarrow>
        Sent w = Some (405, [''Content-Type'' \<mapsto> ''application/json''])
        \<and> Written w = [JObject [(''message'', JString ''method not allowed'')]]
        \<and> log = [])"
  by (simp add: weatherByCEPHandler_def respondError_def HeaderSet_def WriteHeader_def Encode_def
        marshalErrorResponse_def Write_def NewRecorder_def Let_def)

theorem handler_method_not_allowed_witness:
  "Method \<lparr>Method = ''POST'', Path = ''/invalid''\<rparr> \<noteq> ''GET''
   \<and> (case weatherByCEPHandler exampleRuntime exampleNet NewRecorder
             \<lparr>Method = ''POST'', Path = ''/invalid''\<rparr> of (w, log) \<Rightarrow>
        Sent w = Some (405, [''Content-Type'' \<mapsto> ''application/json''])
        \<and> Written w = [JObject [(''message'', JString ''method not allowed'')]]
        \<and> log = [])"
proof -
  have m: "Method \<lparr>Method = ''POST'', Path = ''/invalid''\<rparr> \<noteq> ''GET''" by simp
  show ?thesis
    using m handler_method_not_allowed [OF m, of exampleRuntime exampleNet] by blast
qed

text \<open>
  What the handler sends, on every path: the status line goes out with the header
  \<^verbatim>\<open>Content-Type: application/json\<close>, and the body holds one error object, or the
  temperature object, or nothing at all when the temperature record cannot be encoded.
\<close>

lemma respondError_shape:
  "Sent (respondError code msg NewRecorder)
     = Some (code, [''Content-Type'' \<mapsto> ''application/json''])
   \<and> Written (respondError code msg NewRecorder) = [JObject [(''message'', JString msg)]]"
  by (simp add: respondError_def HeaderSet_def WriteHeader_def Encode_def
        marshalErrorResponse_def Write_def NewRecorder_def Let_def)

lemma respondWeather_shape:
  "Sent (Encode doc (WriteHeader 200 (HeaderSet ''Content-Type'' ''application/json'' NewRecorder)))
     = Some (200, [''Content-Type'' \<mapsto> ''application/json''])
   \<and> Written (Encode doc (WriteHeader 200 (HeaderSet ''Content-Type'' ''application/json'' NewRecorder)))
     = (case doc of None \<Rightarrow> [] | Some d \<Rightarrow> [d])"
  by (simp add: HeaderSet_def WriteHeader_def Encode_def Write_def NewRecorder_def Let_def
        split: option.split)

lemma marshalWeatherData_cases:
  "marshalWeatherData d = None
   \<or> marshalWeatherData d
       = Some (JObject [(''temp_C'', JNumber (TempC d)), (''temp_F'', JNumber (TempF d)),
                        (''temp_K'', JNumber (TempK d))])"
  by (simp add: marshalWeatherData_def marshalFloat_def)

text \<open>Every response is an error response or the encoding of a temperature record.\<close>

lemma handler_cases:
  assumes "\<And>code msg. P (respondError code msg NewRecorder)"
    and "\<And>d. P (Encode (marshalWeatherData d)
                 (WriteHeader 200 (HeaderSet ''Content-Type'' ''application/json'' NewRecorder)))"
  shows "P (fst (weatherByCEPHandler rt net NewRecorder r))"
  using assms by (simp add: weatherByCEPHandler_def Let_def split: prod.split sum.split)

lemma handler_response_shape:
  "(\<exists>code. Sent (fst (weatherByCEPHandler rt net NewRecorder r))
             = Some (code, [''Content-Type'' \<mapsto> ''application/json'']))
   \<and> ((\<exists>msg. Written (fst (weatherByCEPHandler rt net NewRecorder r))
               = [JObject [(''message'', JString msg)]])
      \<or> (\<exists>c f k. Written (fst (weatherByCEPHandler rt net NewRecorder r))
               = [JObject [(''temp_C'', JNumber c), (''temp_F'', JNumber f), (''temp_K'', JNumber k)]])
      \<or> Written (fst (weatherByCEPHandler rt net NewRecorder r)) = [])"
proof (rule handler_cases)
  fix code msg
  show "(\<exists>c. Sent (respondError code msg NewRecorder)
             = Some (c, [''Content-Type'' \<mapsto> ''application/json'']))
   \<and> ((\<exists>m. Written (respondError code msg NewRecorder) = [JObject [(''message'', JString m)]])
      \<or> (\<exists>c f k. Written (respondError code msg NewRecorder)
               = [JObject [(''temp_C'', JNumber c), (''temp_F'', JNumber f), (''temp_K'', JNumber k)]])
      \<or> Written (respondError code msg NewRecorder) = [])"
    by (simp add: respondError_shape)
next
  fix d
  let ?w = "Encode (marshalWeatherData d)
              (WriteHeader 200 (HeaderSet ''Content-Type'' ''application/json'' NewRecorder))"
  show "(\<exists>c. Sent ?w = Some (c, [''Content-Type'' \<mapsto> ''application/json'']))
   \<and> ((\<exists>m. Written ?w = [JObject [(''message'', JString m)]])
      \<or> (\<exists>c f k. Written ?w
               = [JObject [(''temp_C'', JNumber c), (''temp_F'', JNumber f), (''temp_K'', JNumber k)]])
      \<or> Written ?w = [])"
    using marshalWeatherData_cases [of d] by (auto simp: respondWeather_shape)
qed

text \<open>
  A complete run: \<^verbatim>\<open>GET /weatherbycep/20040-020\<close> on the example network. The HTTPS
  lookup fails, the HTTP one answers, the weather service reports 25 degrees, and the
  response carries 25, 77 and 298.15 as \<^verbatim>\<open>float64\<close> values.
\<close>

lemma handler_success_example:
  \<open>(case weatherByCEPHandler exampleRuntime exampleNet NewRecorder
            \<lparr>Method = ''GET'', Path = ''/weatherbycep/20040-020''\<rparr> of
      (w, log) \<Rightarrow>
        Sent w = Some (200, [''Content-Type'' \<mapsto> ''application/json''])
        \<and> Written w = [JObject [(''temp_C'', JNumber 0x4039000000000000),
                                  (''temp_F'', JNumber 0x4053400000000000),
                                  (''temp_K'', JNumber 0x4072A26666666666)]]
        \<and> log = [''https://viacep.com.br/ws/20040020/json/'',
                  ''http://viacep.com.br/ws/20040020/json/'',
                  ''https://wttr.in/Rio%2Bde%2BJaneiro%2CRJ%2CBrazil?format=j1''])\<close>
proof -
  have v: "isValidCEP ''20040-020''" by code_simp
  have u: "weatherURL ''Rio de Janeiro'' ''RJ''
             = ''https://wttr.in/Rio%2Bde%2BJaneiro%2CRJ%2CBrazil?format=j1''"
    by code_simp
  have f: "\<not> isNaN 0x4039000000000000" "\<not> isInf 0x4039000000000000"
    "\<not> isNaN 0x4053400000000000" "\<not> isInf 0x4053400000000000"
    "\<not> isNaN 0x4072A26666666666" "\<not> isInf 0x4072A26666666666"
    by (simp_all add: isNaN_def isInf_def)
  show ?thesis
    using v u f
    by (simp add: weatherByCEPHandler_def searchCEP_def getWeatherData_def Get_def exampleNet_def
          exampleRuntime_def exampleUnmarshalCEP_def exampleUnmarshalWttr_def exampleParseFloat_def
          exampleMul_def exampleQuo_def exampleAdd_def float64_9_def float64_5_def float64_32_def
          float64_273_15_def zeroCEPData_def viacepURL_def formatCEP_def HasPrefix_def
          TrimPrefix_def HeaderSet_def WriteHeader_def Write_def Encode_def marshalWeatherData_def
          marshalFloat_def NewRecorder_def)
qed

text \<open>
  Claim C8 asks for a JSON object in the body of every response. The handler misses one
  case. For \<^verbatim>\<open>GET /weatherbycep/01310100\<close>, with the lookup service answering
  \<^verbatim>\<open>{"localidade": "Sao Paulo", "uf": "SP"}\<close> and the weather service answering
  \<^verbatim>\<open>{"current_condition": [{"temp_C": "NaN"}]}\<close>, the temperature parses to NaN, the
  record cannot be encoded, and the response is status 200 with the JSON content type
  and an empty body.
\<close>

theorem handler_unencodable_temperature_empty_body:
  \<open>(case weatherByCEPHandler exampleRuntime exampleNet NewRecorder
            \<lparr>Method = ''GET'', Path = ''/weatherbycep/01310100''\<rparr> of
      (w, log) \<Rightarrow>
        Sent w = Some (200, [''Content-Type'' \<mapsto> ''application/json''])
        \<and> Written w = []
        \<and> log = [''https://viacep.com.br/ws/01310100/json/'',
                  ''https://wttr.in/Sao%2BPaulo%2CSP%2CBrazil?format=j1''])\<close>
proof -
  have v: "isValidCEP ''01310100''" by code_simp
  have u: "weatherURL ''Sao Paulo'' ''SP'' = ''https://wttr.in/Sao%2BPaulo%2CSP%2CBrazil?format=j1''"
    by code_simp
  have n: "isNaN float64_NaN" by (simp add: isNaN_def float64_NaN_def)
  show ?thesis
    using v u n
    by (simp add: weatherByCEPHandler_def searchCEP_def getWeatherData_def Get_def exampleNet_def
          exampleRuntime_def exampleUnmarshalCEP_def exampleUnmarshalWttr_def exampleParseFloat_def
          zeroCEPData_def viacepURL_def formatCEP_def HasPrefix_def TrimPrefix_def
          HeaderSet_def WriteHeader_def Encode_def marshalWeatherData_def marshalFloat_def
          NewRecorder_def)
qed

end
